theory Spec2Isabelle
  imports Main
begin

section \<open>Data model\<close>

text \<open>
  The linter of \<^verbatim>\<open>nbcelltests/lint.py\<close>: six rule functions, each returning a list
  of messages and an overall flag, and the orchestrator \<^verbatim>\<open>run\<close> that reads the
  extracted metadata of a notebook, applies the rules and optionally an external linter.
\<close>

text \<open>
  Modelled from the spec: \<^verbatim>\<open>LintType\<close> and \<^verbatim>\<open>LintMessage\<close> are imported from
  \<^verbatim>\<open>nbcelltests/define.py\<close>, which is not part of the sources at hand. The spec gives
  the enumeration of rule categories and the four fields of a message (cell index,
  text, rule type, passed).
\<close>

datatype LintType =
    LINES_PER_CELL
  | CELLS_PER_NOTEBOOK
  | FUNCTION_DEFINITIONS
  | CLASS_DEFINITIONS
  | KERNELSPEC
  | MAGICS
  | LINTER

text \<open>
  The Python values that occur in the metadata dictionary and in a rule configuration:
  integers, the booleans, \<^verbatim>\<open>None\<close>, a list of integers (the line counts), a
  dictionary from strings to strings (a kernelspec) and a set of strings (magics, noqa).
\<close>

datatype pyval =
    PInt int
  | PBool bool
  | PNone
  | PInts "int list"
  | PDict "string \<rightharpoonup> string"
  | PSet "string set"

text \<open>
  The text of a message is built by \<^verbatim>\<open>str.format\<close> and by concatenation. The
  rendering of a set or of a dictionary by Python depends on hashing and insertion
  order, so a text is kept as its sequence of pieces: the literal parts of the template
  and the values that were formatted into it.
\<close>

datatype frag = Lit string | Arg pyval

record LintMessage =
  cell :: int
  message :: "frag list"
  lint_type :: LintType
  passed :: bool

datatype error =
    ValueError
  | AttributeError
  | TypeError
  | KeyError string
  | OSError

type_synonym lintresult = "LintMessage list \<times> bool"

section \<open>The numeric rules\<close>

text \<open>
  \<^verbatim>\<open>for i, lines_in_cell in enumerate(cell_lines): ret.append(LintMessage(i + 1, ...))\<close>:
  the loop of \<^verbatim>\<open>lint_lines_per_cell\<close>, with the list \<^verbatim>\<open>ret\<close> built so far and the
  counter \<^verbatim>\<open>i\<close> of \<^verbatim>\<open>enumerate\<close> as arguments.
\<close>

fun lines_loop :: "LintMessage list \<Rightarrow> nat \<Rightarrow> int list \<Rightarrow> int \<Rightarrow> LintMessage list" where
  "lines_loop ret i [] max_lines_per_cell = ret"
| "lines_loop ret i (lines_in_cell # rest) max_lines_per_cell =
     lines_loop
       (ret @ [\<lparr>cell = int i + 1,
                message = [Lit ''Checking lines in cell (max='', Arg (PInt max_lines_per_cell),
                           Lit ''; actual='', Arg (PInt lines_in_cell), Lit '')''],
                lint_type = LINES_PER_CELL,
                passed = (lines_in_cell \<le> max_lines_per_cell)\<rparr>])
       (Suc i) rest max_lines_per_cell"

definition lint_lines_per_cell :: "int list \<Rightarrow> int \<Rightarrow> lintresult" where
  "lint_lines_per_cell cell_lines max_lines_per_cell =
     (if max_lines_per_cell < 0 then ([], True)
      else let ret = lines_loop [] 0 cell_lines max_lines_per_cell
           in (ret, list_all passed ret))"

definition lint_cells_per_notebook :: "int \<Rightarrow> int \<Rightarrow> lintresult" where
  "lint_cells_per_notebook cell_count max_cells_per_notebook =
     (if max_cells_per_notebook < 0 then ([], True)
      else let p = (cell_count \<le> max_cells_per_notebook)
           in ([\<lparr>cell = - 1,
                  message = [Lit ''Checking cells per notebook (max='',
                             Arg (PInt max_cells_per_notebook),
                             Lit ''; actual='', Arg (PInt cell_count), Lit '')''],
                  lint_type = CELLS_PER_NOTEBOOK,
                  passed = p\<rparr>], p))"

definition lint_function_definitions :: "int \<Rightarrow> int \<Rightarrow> lintresult" where
  "lint_function_definitions functions max_function_definitions =
     (if max_function_definitions < 0 then ([], True)
      else let p = (functions \<le> max_function_definitions)
           in ([\<lparr>cell = - 1,
                  message = [Lit ''Checking functions per notebook (max='',
                             Arg (PInt max_function_definitions),
                             Lit ''; actual='', Arg (PInt functions), Lit '')''],
                  lint_type = FUNCTION_DEFINITIONS,
                  passed = p\<rparr>], p))"

definition lint_class_definitions :: "int \<Rightarrow> int \<Rightarrow> lintresult" where
  "lint_class_definitions classes max_class_definitions =
     (if max_class_definitions < 0 then ([], True)
      else let p = (classes \<le> max_class_definitions)
           in ([\<lparr>cell = - 1,
                  message = [Lit ''Checking classes per notebook (max='',
                             Arg (PInt max_class_definitions),
                             Lit ''; actual='', Arg (PInt classes), Lit '')''],
                  lint_type = CLASS_DEFINITIONS,
                  passed = p\<rparr>], p))"

section \<open>The kernelspec rule\<close>

text \<open>
  \<^verbatim>\<open>kernelspec_requirements.items()\<close>: only a dictionary has the method; for every
  other value Python raises AttributeError.
\<close>

definition items :: "pyval \<Rightarrow> error + (string \<times> string) set" where
  "items v = (case v of PDict d \<Rightarrow> Inr (Map.graph d) | _ \<Rightarrow> Inl AttributeError)"

text \<open>
  The kernelspec is a dictionary with string values (the comment in the source says
  so). The requirements are \<^verbatim>\<open>False\<close>, \<^verbatim>\<open>None\<close> or a dictionary, so they are a
  \<^typ>\<open>pyval\<close>; \<^verbatim>\<open>is False\<close> holds for the value \<^term>\<open>PBool False\<close> only.
\<close>

definition lint_kernelspec :: "(string \<rightharpoonup> string) \<Rightarrow> pyval \<Rightarrow> error + lintresult" where
  "lint_kernelspec kernelspec kernelspec_requirements =
     (if kernelspec_requirements = PBool False then Inr ([], True)
      else case items kernelspec_requirements of
             Inl e \<Rightarrow> Inl e
           | Inr required \<Rightarrow>
               let p = (required \<subseteq> Map.graph kernelspec)
               in Inr ([\<lparr>cell = - 1,
                         message = [Lit ''Checking kernelspec (min. required='',
                                    Arg kernelspec_requirements,
                                    Lit ''; actual='', Arg (PDict kernelspec), Lit '')''],
                         lint_type = KERNELSPEC,
                         passed = p\<rparr>], p))"

section \<open>The magics rule\<close>

text \<open>
  The last two lines of \<^verbatim>\<open>lint_magics\<close>: the message and the flag for the set
  \<^verbatim>\<open>bad\<close> of failing magics and the words \<^verbatim>\<open>msg\<close> of the active mode.
\<close>

definition magics_result :: "string set \<Rightarrow> string \<Rightarrow> lintresult" where
  "magics_result bad msg =
     (let p = (bad = {})
      in ([\<lparr>cell = - 1,
             message = Lit ''Checking magics'' #
                       (if bad \<noteq> {}
                        then [Lit '' ('', Lit msg, Lit '' '', Arg (PSet bad), Lit '')'']
                        else []),
             lint_type = MAGICS,
             passed = p\<rparr>], p))"

definition lint_magics ::
  "string set \<Rightarrow> string set option \<Rightarrow> string set option \<Rightarrow> error + lintresult" where
  "lint_magics magics whitelist blacklist =
     (if whitelist = None \<and> blacklist = None then Inr ([], True)
      else if whitelist \<noteq> None \<and> blacklist \<noteq> None then Inl ValueError
      else case whitelist of
             Some w \<Rightarrow> Inr (magics_result (magics - w) ''missing from whitelist:'')
           | None \<Rightarrow>
               (case blacklist of
                  Some b \<Rightarrow> Inr (magics_result (magics \<inter> b) ''present in blacklist:'')
                | None \<Rightarrow> Inr ([], True)))"

section \<open>The orchestrator\<close>

text \<open>
  The metadata dictionary of \<^verbatim>\<open>run\<close>. A missing key raises KeyError, as
  \<^verbatim>\<open>extra_metadata[key]\<close> does. The rule functions above take their arguments with
  the types the extractor provides (line counts as a list of integers, counts and
  thresholds as integers, the kernelspec as a dictionary, magics and the two lists as
  sets, a list of magics being represented by the set the source makes of it with
  \<^verbatim>\<open>set(...)\<close>). A value of another type is reported as TypeError (AttributeError
  where the source calls \<^verbatim>\<open>.items()\<close>) at the place where \<^verbatim>\<open>run\<close> reads it;
  Python reports it at the first operation that needs the type. All properties below
  are about calls that read values of the expected types.
\<close>

type_synonym metadata = "string \<rightharpoonup> pyval"

definition bindE :: "error + 'a \<Rightarrow> ('a \<Rightarrow> error + 'b) \<Rightarrow> error + 'b" where
  "bindE r f = (case r of Inl e \<Rightarrow> Inl e | Inr v \<Rightarrow> f v)"

definition getitem :: "metadata \<Rightarrow> string \<Rightarrow> error + pyval" where
  "getitem md k = (case md k of None \<Rightarrow> Inl (KeyError k) | Some v \<Rightarrow> Inr v)"

definition as_int :: "pyval \<Rightarrow> error + int" where
  "as_int v = (case v of PInt n \<Rightarrow> Inr n | _ \<Rightarrow> Inl TypeError)"

definition as_ints :: "pyval \<Rightarrow> error + int list" where
  "as_ints v = (case v of PInts ns \<Rightarrow> Inr ns | _ \<Rightarrow> Inl TypeError)"

definition as_dict :: "pyval \<Rightarrow> error + (string \<rightharpoonup> string)" where
  "as_dict v = (case v of PDict d \<Rightarrow> Inr d | _ \<Rightarrow> Inl AttributeError)"

definition as_set :: "pyval \<Rightarrow> error + string set" where
  "as_set v = (case v of PSet s \<Rightarrow> Inr s | _ \<Rightarrow> Inl TypeError)"

text \<open>\<^verbatim>\<open>extra_metadata.get(key, None)\<close> for a whitelist or a blacklist.\<close>

definition get_opt_set :: "metadata \<Rightarrow> string \<Rightarrow> error + string set option" where
  "get_opt_set md k =
     (case md k of
        None \<Rightarrow> Inr None
      | Some PNone \<Rightarrow> Inr None
      | Some (PSet s) \<Rightarrow> Inr (Some s)
      | Some _ \<Rightarrow> Inl TypeError)"

text \<open>\<^verbatim>\<open>ret.extend(lintret); passed = passed and lintfail\<close>\<close>

definition accumulate :: "lintresult \<Rightarrow> lintresult \<Rightarrow> lintresult" where
  "accumulate acc r = (fst acc @ fst r, snd acc \<and> snd r)"

text \<open>\<^verbatim>\<open>rules = rules or {}; extra_metadata.update(rules)\<close>\<close>

definition merge_rules :: "metadata \<Rightarrow> metadata option \<Rightarrow> metadata" where
  "merge_rules extra_metadata rules =
     extra_metadata ++ (case rules of None \<Rightarrow> Map.empty | Some r \<Rightarrow> r)"

text \<open>
  \<^verbatim>\<open>rules_to_remove = extra_metadata['noqa'] & extra_metadata.keys()\<close>, then every
  key of that set is deleted. The order in which the loop visits the set does not
  matter for the dictionary that is left.
\<close>

definition remove_noqa :: "metadata \<Rightarrow> error + metadata" where
  "remove_noqa extra_metadata =
     bindE (getitem extra_metadata ''noqa'') (\<lambda>v.
     bindE (as_set v) (\<lambda>noqa.
       let rules_to_remove = noqa \<inter> dom extra_metadata
       in Inr (extra_metadata |` (- rules_to_remove))))"

text \<open>The six rule blocks of \<^verbatim>\<open>run\<close>, each guarded by the presence of its key.\<close>

definition check_lines_per_cell :: "metadata \<Rightarrow> lintresult \<Rightarrow> error + lintresult" where
  "check_lines_per_cell md acc =
     (if ''lines_per_cell'' \<in> dom md then
        bindE (getitem md ''cell_lines'') (\<lambda>v.
        bindE (getitem md ''lines_per_cell'') (\<lambda>t.
        bindE (as_ints v) (\<lambda>cell_lines.
        bindE (as_int t) (\<lambda>max_lines_per_cell.
          Inr (accumulate acc (lint_lines_per_cell cell_lines max_lines_per_cell))))))
      else Inr acc)"

definition check_cells_per_notebook :: "metadata \<Rightarrow> lintresult \<Rightarrow> error + lintresult" where
  "check_cells_per_notebook md acc =
     (if ''cells_per_notebook'' \<in> dom md then
        bindE (getitem md ''cell_count'') (\<lambda>v.
        bindE (getitem md ''cells_per_notebook'') (\<lambda>t.
        bindE (as_int v) (\<lambda>cell_count.
        bindE (as_int t) (\<lambda>max_cells_per_notebook.
          Inr (accumulate acc (lint_cells_per_notebook cell_count max_cells_per_notebook))))))
      else Inr acc)"

definition check_function_definitions :: "metadata \<Rightarrow> lintresult \<Rightarrow> error + lintresult" where
  "check_function_definitions md acc =
     (if ''function_definitions'' \<in> dom md then
        bindE (getitem md ''functions'') (\<lambda>v.
        bindE (getitem md ''function_definitions'') (\<lambda>t.
        bindE (as_int v) (\<lambda>functions.
        bindE (as_int t) (\<lambda>max_function_definitions.
          Inr (accumulate acc (lint_function_definitions functions max_function_definitions))))))
      else Inr acc)"

definition check_class_definitions :: "metadata \<Rightarrow> lintresult \<Rightarrow> error + lintresult" where
  "check_class_definitions md acc =
     (if ''class_definitions'' \<in> dom md then
        bindE (getitem md ''classes'') (\<lambda>v.
        bindE (getitem md ''class_definitions'') (\<lambda>t.
        bindE (as_int v) (\<lambda>classes.
        bindE (as_int t) (\<lambda>max_class_definitions.
          Inr (accumulate acc (lint_class_definitions classes max_class_definitions))))))
      else Inr acc)"

definition check_kernelspec :: "metadata \<Rightarrow> lintresult \<Rightarrow> error + lintresult" where
  "check_kernelspec md acc =
     (if ''kernelspec_requirements'' \<in> dom md then
        bindE (getitem md ''kernelspec'') (\<lambda>v.
        bindE (getitem md ''kernelspec_requirements'') (\<lambda>kernelspec_requirements.
        bindE (as_dict v) (\<lambda>kernelspec.
        bindE (lint_kernelspec kernelspec kernelspec_requirements) (\<lambda>r.
          Inr (accumulate acc r)))))
      else Inr acc)"

definition check_magics :: "metadata \<Rightarrow> lintresult \<Rightarrow> error + lintresult" where
  "check_magics md acc =
     (if ''magics_whitelist'' \<in> dom md \<or> ''magics_blacklist'' \<in> dom md then
        bindE (getitem md ''magics'') (\<lambda>v.
        bindE (get_opt_set md ''magics_whitelist'') (\<lambda>whitelist.
        bindE (get_opt_set md ''magics_blacklist'') (\<lambda>blacklist.
        bindE (as_set v) (\<lambda>magics.
        bindE (lint_magics magics whitelist blacklist) (\<lambda>r.
          Inr (accumulate acc r))))))
      else Inr acc)"

definition run_rules :: "metadata \<Rightarrow> error + lintresult" where
  "run_rules md =
     bindE (check_lines_per_cell md ([], True)) (\<lambda>acc.
     bindE (check_cells_per_notebook md acc) (\<lambda>acc.
     bindE (check_function_definitions md acc) (\<lambda>acc.
     bindE (check_class_definitions md acc) (\<lambda>acc.
     bindE (check_kernelspec md acc) (\<lambda>acc.
     check_magics md acc)))))"

text \<open>
  \<^verbatim>\<open>str.strip()\<close> removes leading and trailing whitespace. The characters of a text
  are code points below 256; these are the ones for which \<^verbatim>\<open>str.isspace\<close> holds.
\<close>

definition isspace :: "char \<Rightarrow> bool" where
  "isspace c = (c \<in> set [CHR 0x09, CHR 0x0A, CHR 0x0B, CHR 0x0C, CHR 0x0D,
                           CHR 0x1C, CHR 0x1D, CHR 0x1E, CHR 0x1F, CHR 0x20,
                           CHR 0x85, CHR 0xA0])"

definition strip :: "string \<Rightarrow> string" where
  "strip s = rev (dropWhile isspace (rev (dropWhile isspace s)))"

text \<open>
  What \<^verbatim>\<open>subprocess.run\<close> returns: the captured output and the exit status.
\<close>

record completed =
  stdout :: string
  stderr :: string
  returncode :: int

text \<open>
  What the collaborators of \<^verbatim>\<open>run\<close> give for one call: the dictionary returned by
  \<^verbatim>\<open>extract_extrametadata\<close> for the notebook, the script \<^verbatim>\<open>body\<close> returned by
  the exporter, the name of the fresh temporary file, and the external command, which
  sees the script written to that file and its argument list and either cannot be
  started (an exception of \<^verbatim>\<open>subprocess.run\<close>) or completes.
\<close>

record env =
  extracted :: metadata
  body :: string
  tf_name :: string
  subprocess :: "string \<Rightarrow> string list \<Rightarrow> error + completed"

text \<open>
  The first part of \<^verbatim>\<open>run\<close>, up to the test of \<^verbatim>\<open>executable\<close>: merge the
  caller's rules over the extracted metadata, delete the keys named by noqa, apply the
  six rule blocks in their order.
\<close>

definition rule_phase :: "env \<Rightarrow> metadata option \<Rightarrow> error + lintresult" where
  "rule_phase e rules = bindE (remove_noqa (merge_rules (extracted e) rules)) run_rules"

text \<open>
  \<^verbatim>\<open>run(notebook, executable, rules)\<close>, from the point where the notebook has been
  read and its metadata extracted. The list \<^verbatim>\<open>executable\<close> is an object of the
  caller, and \<^verbatim>\<open>executable.append(tf_name)\<close> updates it in place: the model
  returns, beside the result or the exception, the contents of the caller's list after
  the call. \<^verbatim>\<open>if executable:\<close> is false for \<^verbatim>\<open>None\<close> and for the empty list.
  The temporary file is written before the command is started and removed in the
  \<^verbatim>\<open>finally\<close> block on every path; the file system is not part of the state, the
  command receives the script it would read from the file as an argument.
\<close>

definition run ::
  "env \<Rightarrow> string list option \<Rightarrow> metadata option \<Rightarrow> (error + lintresult) \<times> string list option" where
  "run e executable rules =
     (case rule_phase e rules of
        Inl err \<Rightarrow> (Inl err, executable)
      | Inr (ret, p) \<Rightarrow>
          (case executable of
             None \<Rightarrow> (Inr (ret, p), executable)
           | Some [] \<Rightarrow> (Inr (ret, p), executable)
           | Some (c # cs) \<Rightarrow>
               (let args = (c # cs) @ [tf_name e]
                in case subprocess e (body e) args of
                     Inl err \<Rightarrow> (Inl err, Some args)
                   | Inr ret2 \<Rightarrow>
                       (let msg = stdout ret2 @ [CHR 0x09] @ stderr ret2
                        in (Inr (ret @ [\<lparr>cell = - 1,
                                         message = [Lit (''Checking lint:'' @ [CHR 0x0A] @ strip msg)],
                                         lint_type = LINTER,
                                         passed = (strip msg = [])\<rparr>], p),
                            Some args)))))"

section \<open>Notions for stating the properties of the orchestrator\<close>

text \<open>The configuration keys whose presence makes \<^verbatim>\<open>run\<close> apply the rule of a type.\<close>

fun rule_keys :: "LintType \<Rightarrow> string set" where
  "rule_keys LINES_PER_CELL = {''lines_per_cell''}"
| "rule_keys CELLS_PER_NOTEBOOK = {''cells_per_notebook''}"
| "rule_keys FUNCTION_DEFINITIONS = {''function_definitions''}"
| "rule_keys CLASS_DEFINITIONS = {''class_definitions''}"
| "rule_keys KERNELSPEC = {''kernelspec_requirements''}"
| "rule_keys MAGICS = {''magics_whitelist'', ''magics_blacklist''}"
| "rule_keys LINTER = {}"

text \<open>
  What one rule block adds to the accumulated result: messages of its own type only,
  and only if one of its keys is in the dictionary; the flag is and-ed with theirs.
\<close>

definition adds :: "LintType \<Rightarrow> metadata \<Rightarrow> lintresult \<Rightarrow> lintresult \<Rightarrow> bool" where
  "adds T md acc acc' =
     (\<exists>ms. fst acc' = fst acc @ ms \<and> snd acc' = (snd acc \<and> list_all passed ms) \<and>
           (\<forall>m \<in> set ms. lint_type m = T \<and> rule_keys T \<inter> dom md \<noteq> {}))"

text \<open>The invariant of the accumulated result along the six rule blocks.\<close>

definition rules_inv :: "metadata \<Rightarrow> lintresult \<Rightarrow> bool" where
  "rules_inv md acc =
     (snd acc = list_all passed (fst acc) \<and>
      (\<forall>m \<in> set (fst acc). lint_type m \<noteq> LINTER \<and> rule_keys (lint_type m) \<inter> dom md \<noteq> {}))"

text \<open>
  The result of each of the six rule checks on the dictionary \<open>md\<close> that the rule
  blocks of \<^verbatim>\<open>run\<close> read: what the rule function returns for the values under the
  keys of the rule when the key that enables the rule is present, and no message with
  the flag True when the rule is not applied.
\<close>

definition rule_lines_per_cell :: "metadata \<Rightarrow> lintresult" where
  "rule_lines_per_cell md =
     (if ''lines_per_cell'' \<in> dom md then
        (case (md ''cell_lines'', md ''lines_per_cell'') of
           (Some (PInts cell_lines), Some (PInt t)) \<Rightarrow> lint_lines_per_cell cell_lines t
         | _ \<Rightarrow> ([], True))
      else ([], True))"

definition rule_cells_per_notebook :: "metadata \<Rightarrow> lintresult" where
  "rule_cells_per_notebook md =
     (if ''cells_per_notebook'' \<in> dom md then
        (case (md ''cell_count'', md ''cells_per_notebook'') of
           (Some (PInt cell_count), Some (PInt t)) \<Rightarrow> lint_cells_per_notebook cell_count t
         | _ \<Rightarrow> ([], True))
      else ([], True))"

definition rule_function_definitions :: "metadata \<Rightarrow> lintresult" where
  "rule_function_definitions md =
     (if ''function_definitions'' \<in> dom md then
        (case (md ''functions'', md ''function_definitions'') of
           (Some (PInt functions), Some (PInt t)) \<Rightarrow> lint_function_definitions functions t
         | _ \<Rightarrow> ([], True))
      else ([], True))"

definition rule_class_definitions :: "metadata \<Rightarrow> lintresult" where
  "rule_class_definitions md =
     (if ''class_definitions'' \<in> dom md then
        (case (md ''classes'', md ''class_definitions'') of
           (Some (PInt classes), Some (PInt t)) \<Rightarrow> lint_class_definitions classes t
         | _ \<Rightarrow> ([], True))
      else ([], True))"

definition rule_kernelspec :: "metadata \<Rightarrow> lintresult" where
  "rule_kernelspec md =
     (if ''kernelspec_requirements'' \<in> dom md then
        (case (md ''kernelspec'', md ''kernelspec_requirements'') of
           (Some (PDict kernelspec), Some required) \<Rightarrow>
             (case lint_kernelspec kernelspec required of Inr r \<Rightarrow> r | Inl err \<Rightarrow> ([], True))
         | _ \<Rightarrow> ([], True))
      else ([], True))"

definition rule_magics :: "metadata \<Rightarrow> lintresult" where
  "rule_magics md =
     (if ''magics_whitelist'' \<in> dom md \<or> ''magics_blacklist'' \<in> dom md then
        (case (md ''magics'', get_opt_set md ''magics_whitelist'', get_opt_set md ''magics_blacklist'') of
           (Some (PSet magics), Inr whitelist, Inr blacklist) \<Rightarrow>
             (case lint_magics magics whitelist blacklist of Inr r \<Rightarrow> r | Inl err \<Rightarrow> ([], True))
         | _ \<Rightarrow> ([], True))
      else ([], True))"

text \<open>An external command that differs from that of \<open>e\<close> in its exit status only.\<close>

definition with_returncode :: "int \<Rightarrow> env \<Rightarrow> env" where
  "with_returncode rc e =
     e\<lparr>subprocess := (\<lambda>script args.
          case subprocess e script args of
            Inl err \<Rightarrow> Inl err
          | Inr ret2 \<Rightarrow> Inr (ret2\<lparr>returncode := rc\<rparr>))\<rparr>"

section \<open>Example inputs\<close>

text \<open>
  The metadata of a notebook with two cells of five and one lines, one magic, and a
  noqa marker for the rule \<^verbatim>\<open>lines_per_cell\<close>.
\<close>

definition demo_metadata :: metadata where
  "demo_metadata =
     [''noqa'' \<mapsto> PSet {''lines_per_cell''},
      ''cell_lines'' \<mapsto> PInts [5, 1],
      ''cell_count'' \<mapsto> PInt 2,
      ''kernelspec'' \<mapsto> PDict [''name'' \<mapsto> ''python3''],
      ''magics'' \<mapsto> PSet {''timeit''}]"

text \<open>
  A call of \<^verbatim>\<open>run\<close> on that notebook whose external command prints \<open>out\<close> and
  exits with status \<open>rc\<close>, and one whose external command prints its own argument
  list, every argument in angle brackets.
\<close>

definition demo_env :: "string \<Rightarrow> string \<Rightarrow> int \<Rightarrow> env" where
  "demo_env tf out rc =
     \<lparr>extracted = demo_metadata, body = ''import os'', tf_name = tf,
      subprocess = (\<lambda>script args. Inr \<lparr>stdout = out, stderr = [], returncode = rc\<rparr>)\<rparr>"

definition echo_env :: "string \<Rightarrow> env" where
  "echo_env tf =
     \<lparr>extracted = demo_metadata, body = ''import os'', tf_name = tf,
      subprocess = (\<lambda>script args.
         Inr \<lparr>stdout = concat (map (\<lambda>a. ''<'' @ a @ ''>'') args), stderr = [], returncode = 0\<rparr>)\<rparr>"


text \<open>
  A rule configuration of a caller with a threshold that the notebook exceeds, a
  kernelspec requirement and a blacklist that it meets; and one that carries a noqa
  entry of its own beside a threshold.
\<close>

definition demo_rules :: metadata where
  "demo_rules =
     [''cells_per_notebook'' \<mapsto> PInt 1,
      ''kernelspec_requirements'' \<mapsto> PDict [''name'' \<mapsto> ''python3''],
      ''magics_blacklist'' \<mapsto> PSet {''bash''}]"


section \<open>Properties of the numeric rules\<close>

lemma length_lines_loop:
  "length (lines_loop ret i xs t) = length ret + length xs"
  by (induction xs arbitrary: ret i) simp_all

lemma lines_loop_append:
  "lines_loop ret i xs t = ret @ lines_loop [] i xs t"
proof (induction xs arbitrary: ret i)
  case Nil
  show ?case by simp
next
  case (Cons x xs)
  show ?case
    using Cons.IH [of "ret @ [m]" "Suc i" for m] Cons.IH [of "[m]" "Suc i" for m]
    by simp
qed

lemma lines_loop_nth:
  "k < length xs \<Longrightarrow>
     lines_loop [] i xs t ! k =
       \<lparr>cell = int (i + k) + 1,
        message = [Lit ''Checking lines in cell (max='', Arg (PInt t),
                   Lit ''; actual='', Arg (PInt (xs ! k)), Lit '')''],
        lint_type = LINES_PER_CELL,
        passed = (xs ! k \<le> t)\<rparr>"
proof (induction xs arbitrary: i k)
  case Nil
  then show ?case by simp
next
  case (Cons x xs)
  show ?case
  proof (cases k)
    case 0
    then show ?thesis
      using lines_loop_append [of "[m]" "Suc i" xs t for m] by simp
  next
    case (Suc j)
    with Cons.prems have "j < length xs" by simp
    from Cons.IH [OF this, of "Suc i"] Suc show ?thesis
      using lines_loop_append [of "[m]" "Suc i" xs t for m] by simp
  qed
qed

text \<open>
  C4. With a negative threshold each of the four numeric rules returns no message and
  the overall flag True, whatever the counts are.
\<close>

theorem negative_threshold_disables:
  "t < 0 \<Longrightarrow>
     lint_lines_per_cell cell_lines t = ([], True) \<and>
     lint_cells_per_notebook cell_count t = ([], True) \<and>
     lint_function_definitions functions t = ([], True) \<and>
     lint_class_definitions classes t = ([], True)"
  by (simp add: lint_lines_per_cell_def lint_cells_per_notebook_def
      lint_function_definitions_def lint_class_definitions_def)

theorem negative_threshold_disables_witness:
  "(- 1 :: int) < 0 \<and>
   lint_lines_per_cell [3, 500] (- 1) = ([], True) \<and>
   lint_cells_per_notebook 1000 (- 1) = ([], True) \<and>
   lint_function_definitions 7 (- 1) = ([], True) \<and>
   lint_class_definitions 9 (- 1) = ([], True)"
  using negative_threshold_disables [of "- 1" "[3, 500]" 1000 7 9] by simp

text \<open>
  C5. With a threshold that is not negative, \<^verbatim>\<open>lint_lines_per_cell\<close> returns one
  message per cell; the message at position \<open>i\<close> carries the cell index \<open>i + 1\<close> and
  passes exactly when the count of that cell is at most the threshold; the overall flag
  is the conjunction of the flags of all messages.
\<close>

theorem lint_lines_per_cell_messages:
  assumes "0 \<le> t"
  shows "length (fst (lint_lines_per_cell cell_lines t)) = length cell_lines \<and>
         (\<forall>i < length cell_lines.
            cell (fst (lint_lines_per_cell cell_lines t) ! i) = int i + 1 \<and>
            lint_type (fst (lint_lines_per_cell cell_lines t) ! i) = LINES_PER_CELL \<and>
            passed (fst (lint_lines_per_cell cell_lines t) ! i) = (cell_lines ! i \<le> t)) \<and>
         snd (lint_lines_per_cell cell_lines t) =
           (\<forall>i < length cell_lines. passed (fst (lint_lines_per_cell cell_lines t) ! i)) \<and>
         snd (lint_lines_per_cell cell_lines t) = (\<forall>n \<in> set cell_lines. n \<le> t)"
proof -
  let ?ret = "lines_loop [] 0 cell_lines t"
  from assms have res: "lint_lines_per_cell cell_lines t = (?ret, list_all passed ?ret)"
    by (simp add: lint_lines_per_cell_def Let_def)
  have len: "length ?ret = length cell_lines"
    by (simp add: length_lines_loop)
  have nth: "\<forall>i < length cell_lines.
      cell (?ret ! i) = int i + 1 \<and> lint_type (?ret ! i) = LINES_PER_CELL \<and>
      passed (?ret ! i) = (cell_lines ! i \<le> t)"
    by (simp add: lines_loop_nth)
  have all: "list_all passed ?ret = (\<forall>i < length cell_lines. passed (?ret ! i))"
    using len by (simp add: list_all_length)
  have all': "list_all passed ?ret = (\<forall>n \<in> set cell_lines. n \<le> t)"
    unfolding all using nth by (auto simp: all_set_conv_all_nth)
  show ?thesis
    unfolding res fst_conv snd_conv using len nth all all' by blast
qed

theorem lint_lines_per_cell_messages_witness:
  "(0::int) \<le> 3 \<and>
   fst (lint_lines_per_cell [2, 5] 3) =
     [\<lparr>cell = 1,
       message = [Lit ''Checking lines in cell (max='', Arg (PInt 3),
                  Lit ''; actual='', Arg (PInt 2), Lit '')''],
       lint_type = LINES_PER_CELL, passed = True\<rparr>,
      \<lparr>cell = 2,
       message = [Lit ''Checking lines in cell (max='', Arg (PInt 3),
                  Lit ''; actual='', Arg (PInt 5), Lit '')''],
       lint_type = LINES_PER_CELL, passed = False\<rparr>] \<and>
   snd (lint_lines_per_cell [2, 5] 3) = False \<and>
   length (fst (lint_lines_per_cell [2, 5] 3)) = length [2, 5 :: int]"
  using lint_lines_per_cell_messages [of 3 "[2, 5]"]
  by (simp add: lint_lines_per_cell_def)

section \<open>Properties of the kernelspec rule\<close>

lemma graph_subset_iff:
  "(Map.graph r \<subseteq> Map.graph k) = (\<forall>a b. r a = Some b \<longrightarrow> k a = Some b)"
  by (auto simp: Map.graph_def)

text \<open>
  C1. The docstring of \<^verbatim>\<open>lint_kernelspec\<close> promises that the requirements
  \<^verbatim>\<open>None\<close> ask for an empty kernelspec. The code has no branch for \<^verbatim>\<open>None\<close>:
  it reaches \<^verbatim>\<open>kernelspec_requirements.items()\<close> and raises AttributeError, for
  the empty kernelspec as for every other one, so no message is returned at all.
\<close>

theorem lint_kernelspec_None_raises:
  "lint_kernelspec kernelspec PNone = Inl AttributeError"
  by (simp add: lint_kernelspec_def items_def)

text \<open>
  C6. For requirements that are a dictionary, \<^verbatim>\<open>lint_kernelspec\<close> returns one
  message with cell index -1, and the message flag and the overall flag hold exactly
  when every key of the requirements is in the kernelspec with the same value; further
  keys of the kernelspec do not matter.
\<close>

theorem lint_kernelspec_superset:
  "lint_kernelspec kernelspec (PDict required) =
     Inr ([\<lparr>cell = - 1,
            message = [Lit ''Checking kernelspec (min. required='', Arg (PDict required),
                       Lit ''; actual='', Arg (PDict kernelspec), Lit '')''],
            lint_type = KERNELSPEC,
            passed = (\<forall>k v. required k = Some v \<longrightarrow> kernelspec k = Some v)\<rparr>],
          (\<forall>k v. required k = Some v \<longrightarrow> kernelspec k = Some v))"
  by (simp add: lint_kernelspec_def items_def graph_subset_iff Let_def)

theorem lint_kernelspec_superset_witness:
  "snd (projr (lint_kernelspec [''a'' \<mapsto> ''1'', ''b'' \<mapsto> ''2''] (PDict [''a'' \<mapsto> ''1'']))) = True \<and>
   snd (projr (lint_kernelspec [''a'' \<mapsto> ''1''] (PDict [''a'' \<mapsto> ''2'']))) = False \<and>
   length (fst (projr (lint_kernelspec [''a'' \<mapsto> ''1''] (PDict [''a'' \<mapsto> ''2''])))) = 1"
  using lint_kernelspec_superset [of "[''a'' \<mapsto> ''1'', ''b'' \<mapsto> ''2'']" "[''a'' \<mapsto> ''1'']"]
    lint_kernelspec_superset [of "[''a'' \<mapsto> ''1'']" "[''a'' \<mapsto> ''2'']"]
  by simp

section \<open>Properties of the magics rule\<close>

text \<open>
  C7. \<^verbatim>\<open>lint_magics\<close> raises exactly when a whitelist and a blacklist are both
  given, and then the exception is the ValueError of the source; in every other case it
  returns a result; with neither list it returns no message and the flag True.
\<close>

theorem lint_magics_raises_iff:
  "((\<exists>err. lint_magics magics whitelist blacklist = Inl err) =
      (whitelist \<noteq> None \<and> blacklist \<noteq> None)) \<and>
   ((lint_magics magics whitelist blacklist = Inl ValueError) =
      (whitelist \<noteq> None \<and> blacklist \<noteq> None)) \<and>
   ((\<exists>r. lint_magics magics whitelist blacklist = Inr r) =
      (whitelist = None \<or> blacklist = None)) \<and>
   lint_magics magics None None = Inr ([], True)"
  by (cases whitelist; cases blacklist) (auto simp: lint_magics_def)

theorem lint_magics_raises_iff_witness:
  "lint_magics {''timeit''} (Some {''x''}) (Some {''y''}) = Inl ValueError \<and>
   (\<exists>r. lint_magics {''timeit''} (Some {''x''}) None = Inr r) \<and>
   (\<exists>r. lint_magics {''timeit''} None (Some {''y''}) = Inr r) \<and>
   lint_magics {''timeit''} None None = Inr ([], True)"
  using lint_magics_raises_iff [of "{''timeit''}" "Some {''x''}" "Some {''y''}"]
    lint_magics_raises_iff [of "{''timeit''}" "Some {''x''}" None]
    lint_magics_raises_iff [of "{''timeit''}" None "Some {''y''}"]
  by simp

text \<open>
  C8. With a whitelist only, \<^verbatim>\<open>lint_magics\<close> returns one message that passes
  exactly when no magic is outside the whitelist; with a blacklist only, one message
  that passes exactly when no magic is in the blacklist. In both modes the text of the
  message holds the set of failing magics when that set is not empty, and nothing
  beyond the words "Checking magics" when it is empty.
\<close>

theorem lint_magics_failing_set:
  "lint_magics magics (Some whitelist) None =
     Inr ([\<lparr>cell = - 1,
            message = Lit ''Checking magics'' #
                      (if magics - whitelist \<noteq> {}
                       then [Lit '' ('', Lit ''missing from whitelist:'', Lit '' '',
                             Arg (PSet (magics - whitelist)), Lit '')'']
                       else []),
            lint_type = MAGICS,
            passed = (magics - whitelist = {})\<rparr>],
          magics - whitelist = {}) \<and>
   lint_magics magics None (Some blacklist) =
     Inr ([\<lparr>cell = - 1,
            message = Lit ''Checking magics'' #
                      (if magics \<inter> blacklist \<noteq> {}
                       then [Lit '' ('', Lit ''present in blacklist:'', Lit '' '',
                             Arg (PSet (magics \<inter> blacklist)), Lit '')'']
                       else []),
            lint_type = MAGICS,
            passed = (magics \<inter> blacklist = {})\<rparr>],
          magics \<inter> blacklist = {})"
  by (simp add: lint_magics_def magics_result_def)

theorem lint_magics_failing_set_witness:
  "snd (projr (lint_magics {''timeit''} (Some {''timeit'', ''time''}) None)) = True \<and>
   lint_magics {''timeit'', ''bash''} (Some {''timeit''}) None =
     Inr ([\<lparr>cell = - 1,
            message = [Lit ''Checking magics'', Lit '' ('', Lit ''missing from whitelist:'',
                       Lit '' '', Arg (PSet {''bash''}), Lit '')''],
            lint_type = MAGICS, passed = False\<rparr>], False) \<and>
   lint_magics {''timeit'', ''bash''} None (Some {''bash'', ''sh''}) =
     Inr ([\<lparr>cell = - 1,
            message = [Lit ''Checking magics'', Lit '' ('', Lit ''present in blacklist:'',
                       Lit '' '', Arg (PSet {''bash''}), Lit '')''],
            lint_type = MAGICS, passed = False\<rparr>], False)"
proof -
  have d: "{''timeit'', ''bash''} - {''timeit''} = {''bash''}"
    by auto
  have i: "{''timeit'', ''bash''} \<inter> {''bash'', ''sh''} = {''bash''}"
    by auto
  have e: "{''timeit''} - {''timeit'', ''time''} = ({} :: string set)"
    by auto
  show ?thesis
    using lint_magics_failing_set [of "{''timeit''}" "{''timeit'', ''time''}" "{}"]
      lint_magics_failing_set [of "{''timeit'', ''bash''}" "{''timeit''}" "{''bash'', ''sh''}"]
    by (simp add: d i e)
qed

section \<open>Properties of the rule blocks\<close>

lemma adds_refl: "adds T md acc acc"
  by (auto simp: adds_def)

lemma bindE_Inr: "bindE r f = Inr y \<Longrightarrow> \<exists>v. r = Inr v \<and> f v = Inr y"
  by (cases r) (simp_all add: bindE_def)

lemma lines_loop_types:
  "m \<in> set (lines_loop [] i xs t) \<Longrightarrow> lint_type m = LINES_PER_CELL"
  by (auto simp: in_set_conv_nth length_lines_loop lines_loop_nth)

lemma adds_extend:
  assumes "snd r = list_all passed (fst r)"
    and "\<forall>m \<in> set (fst r). lint_type m = T"
    and "rule_keys T \<inter> dom md \<noteq> {}"
  shows "adds T md acc (accumulate acc r)"
  using assms by (auto simp: adds_def accumulate_def)

lemma lint_lines_per_cell_shape:
  "snd (lint_lines_per_cell xs t) = list_all passed (fst (lint_lines_per_cell xs t)) \<and>
   (\<forall>m \<in> set (fst (lint_lines_per_cell xs t)). lint_type m = LINES_PER_CELL)"
  by (auto simp: lint_lines_per_cell_def Let_def lines_loop_types)

lemma lint_cells_per_notebook_shape:
  "snd (lint_cells_per_notebook n t) = list_all passed (fst (lint_cells_per_notebook n t)) \<and>
   (\<forall>m \<in> set (fst (lint_cells_per_notebook n t)). lint_type m = CELLS_PER_NOTEBOOK)"
  by (simp add: lint_cells_per_notebook_def Let_def)

lemma lint_function_definitions_shape:
  "snd (lint_function_definitions n t) = list_all passed (fst (lint_function_definitions n t)) \<and>
   (\<forall>m \<in> set (fst (lint_function_definitions n t)). lint_type m = FUNCTION_DEFINITIONS)"
  by (simp add: lint_function_definitions_def Let_def)

lemma lint_class_definitions_shape:
  "snd (lint_class_definitions n t) = list_all passed (fst (lint_class_definitions n t)) \<and>
   (\<forall>m \<in> set (fst (lint_class_definitions n t)). lint_type m = CLASS_DEFINITIONS)"
  by (simp add: lint_class_definitions_def Let_def)

lemma lint_kernelspec_shape:
  "lint_kernelspec ks req = Inr r \<Longrightarrow>
     snd r = list_all passed (fst r) \<and> (\<forall>m \<in> set (fst r). lint_type m = KERNELSPEC)"
  by (auto simp: lint_kernelspec_def Let_def split: if_splits sum.splits)

lemma lint_magics_shape:
  "lint_magics ms w b = Inr r \<Longrightarrow>
     snd r = list_all passed (fst r) \<and> (\<forall>m \<in> set (fst r). lint_type m = MAGICS)"
  by (auto simp: lint_magics_def magics_result_def Let_def split: if_splits option.splits)

lemma check_lines_per_cell_adds:
  "check_lines_per_cell md acc = Inr acc' \<Longrightarrow> adds LINES_PER_CELL md acc acc'"
  unfolding check_lines_per_cell_def
  by (auto split: if_splits dest!: bindE_Inr
      intro!: adds_extend simp: adds_refl lint_lines_per_cell_shape)

lemma check_cells_per_notebook_adds:
  "check_cells_per_notebook md acc = Inr acc' \<Longrightarrow> adds CELLS_PER_NOTEBOOK md acc acc'"
  unfolding check_cells_per_notebook_def
  by (auto split: if_splits dest!: bindE_Inr
      intro!: adds_extend simp: adds_refl lint_cells_per_notebook_shape)

lemma check_function_definitions_adds:
  "check_function_definitions md acc = Inr acc' \<Longrightarrow> adds FUNCTION_DEFINITIONS md acc acc'"
  unfolding check_function_definitions_def
  by (auto split: if_splits dest!: bindE_Inr
      intro!: adds_extend simp: adds_refl lint_function_definitions_shape)

lemma check_class_definitions_adds:
  "check_class_definitions md acc = Inr acc' \<Longrightarrow> adds CLASS_DEFINITIONS md acc acc'"
  unfolding check_class_definitions_def
  by (auto split: if_splits dest!: bindE_Inr
      intro!: adds_extend simp: adds_refl lint_class_definitions_shape)

lemma check_kernelspec_adds:
  "check_kernelspec md acc = Inr acc' \<Longrightarrow> adds KERNELSPEC md acc acc'"
  unfolding check_kernelspec_def
  by (auto split: if_splits dest!: bindE_Inr lint_kernelspec_shape
      intro!: adds_extend simp: adds_refl)

lemma check_magics_adds:
  "check_magics md acc = Inr acc' \<Longrightarrow> adds MAGICS md acc acc'"
  unfolding check_magics_def
  by (auto split: if_splits dest!: bindE_Inr lint_magics_shape
      intro!: adds_extend simp: adds_refl)

lemma rules_inv_adds:
  "rules_inv md acc \<Longrightarrow> adds T md acc acc' \<Longrightarrow> T \<noteq> LINTER \<Longrightarrow> rules_inv md acc'"
  by (auto simp: rules_inv_def adds_def)

lemma run_rules_inv:
  assumes "run_rules md = Inr r"
  shows "rules_inv md r"
proof -
  from assms obtain a1 a2 a3 a4 a5 where
    s1: "check_lines_per_cell md ([], True) = Inr a1" and
    s2: "check_cells_per_notebook md a1 = Inr a2" and
    s3: "check_function_definitions md a2 = Inr a3" and
    s4: "check_class_definitions md a3 = Inr a4" and
    s5: "check_kernelspec md a4 = Inr a5" and
    s6: "check_magics md a5 = Inr r"
    unfolding run_rules_def by (blast dest!: bindE_Inr)
  have i0: "rules_inv md ([], True)"
    by (simp add: rules_inv_def)
  have i1: "rules_inv md a1"
    using rules_inv_adds [OF i0 check_lines_per_cell_adds [OF s1]] by simp
  have i2: "rules_inv md a2"
    using rules_inv_adds [OF i1 check_cells_per_notebook_adds [OF s2]] by simp
  have i3: "rules_inv md a3"
    using rules_inv_adds [OF i2 check_function_definitions_adds [OF s3]] by simp
  have i4: "rules_inv md a4"
    using rules_inv_adds [OF i3 check_class_definitions_adds [OF s4]] by simp
  have i5: "rules_inv md a5"
    using rules_inv_adds [OF i4 check_kernelspec_adds [OF s5]] by simp
  show ?thesis
    using rules_inv_adds [OF i5 check_magics_adds [OF s6]] by simp
qed


text \<open>Each rule block adds the result of its rule check and nothing else.\<close>

lemma accumulate_nothing: "accumulate acc ([], True) = acc"
  by (simp add: accumulate_def)

lemma check_lines_per_cell_eq:
  "check_lines_per_cell md acc = Inr acc' \<Longrightarrow> acc' = accumulate acc (rule_lines_per_cell md)"
  by (auto simp: check_lines_per_cell_def rule_lines_per_cell_def bindE_def getitem_def
      as_int_def as_ints_def accumulate_nothing
      split: if_splits option.splits pyval.splits)

lemma check_cells_per_notebook_eq:
  "check_cells_per_notebook md acc = Inr acc' \<Longrightarrow>
     acc' = accumulate acc (rule_cells_per_notebook md)"
  by (auto simp: check_cells_per_notebook_def rule_cells_per_notebook_def bindE_def getitem_def
      as_int_def accumulate_nothing
      split: if_splits option.splits pyval.splits)

lemma check_function_definitions_eq:
  "check_function_definitions md acc = Inr acc' \<Longrightarrow>
     acc' = accumulate acc (rule_function_definitions md)"
  by (auto simp: check_function_definitions_def rule_function_definitions_def bindE_def
      getitem_def as_int_def accumulate_nothing
      split: if_splits option.splits pyval.splits)

lemma check_class_definitions_eq:
  "check_class_definitions md acc = Inr acc' \<Longrightarrow>
     acc' = accumulate acc (rule_class_definitions md)"
  by (auto simp: check_class_definitions_def rule_class_definitions_def bindE_def
      getitem_def as_int_def accumulate_nothing
      split: if_splits option.splits pyval.splits)

lemma check_kernelspec_eq:
  "check_kernelspec md acc = Inr acc' \<Longrightarrow> acc' = accumulate acc (rule_kernelspec md)"
  by (auto simp: check_kernelspec_def rule_kernelspec_def bindE_def getitem_def
      as_dict_def accumulate_nothing
      split: if_splits option.splits pyval.splits sum.splits)

lemma check_magics_eq:
  "check_magics md acc = Inr acc' \<Longrightarrow> acc' = accumulate acc (rule_magics md)"
  by (auto simp: check_magics_def rule_magics_def bindE_def getitem_def
      as_set_def accumulate_nothing
      split: if_splits option.splits pyval.splits sum.splits)

lemma run_rules_eq:
  assumes "run_rules md = Inr r"
  shows "r = (fst (rule_lines_per_cell md) @ fst (rule_cells_per_notebook md) @
              fst (rule_function_definitions md) @ fst (rule_class_definitions md) @
              fst (rule_kernelspec md) @ fst (rule_magics md),
              snd (rule_lines_per_cell md) \<and> snd (rule_cells_per_notebook md) \<and>
              snd (rule_function_definitions md) \<and> snd (rule_class_definitions md) \<and>
              snd (rule_kernelspec md) \<and> snd (rule_magics md))"
proof -
  from assms obtain a1 a2 a3 a4 a5 where
    s1: "check_lines_per_cell md ([], True) = Inr a1" and
    s2: "check_cells_per_notebook md a1 = Inr a2" and
    s3: "check_function_definitions md a2 = Inr a3" and
    s4: "check_class_definitions md a3 = Inr a4" and
    s5: "check_kernelspec md a4 = Inr a5" and
    s6: "check_magics md a5 = Inr r"
    unfolding run_rules_def by (blast dest!: bindE_Inr)
  have e1: "a1 = accumulate ([], True) (rule_lines_per_cell md)"
    by (rule check_lines_per_cell_eq [OF s1])
  have e2: "a2 = accumulate a1 (rule_cells_per_notebook md)"
    by (rule check_cells_per_notebook_eq [OF s2])
  have e3: "a3 = accumulate a2 (rule_function_definitions md)"
    by (rule check_function_definitions_eq [OF s3])
  have e4: "a4 = accumulate a3 (rule_class_definitions md)"
    by (rule check_class_definitions_eq [OF s4])
  have e5: "a5 = accumulate a4 (rule_kernelspec md)"
    by (rule check_kernelspec_eq [OF s5])
  have e6: "r = accumulate a5 (rule_magics md)"
    by (rule check_magics_eq [OF s6])
  show ?thesis
    unfolding e6 e5 e4 e3 e2 e1 by (simp add: accumulate_def)
qed

section \<open>Properties of the orchestrator\<close>


lemma run_cases:
  assumes "run e executable rules = (Inr (msgs, p), executable')"
  shows "\<exists>ret. rule_phase e rules = Inr (ret, p) \<and>
           (msgs = ret \<or> (\<exists>l. msgs = ret @ [l] \<and> lint_type l = LINTER))"
  using assms unfolding run_def
  by (auto simp: Let_def split: sum.splits option.splits list.splits)

lemma rule_phase_with_returncode:
  "rule_phase (with_returncode rc e) rules = rule_phase e rules"
  by (simp add: rule_phase_def with_returncode_def)

lemma strip_Nil_iff: "(strip s = []) = (\<forall>c \<in> set s. isspace c)"
proof
  assume "strip s = []"
  then have a: "\<forall>c \<in> set (dropWhile isspace s). isspace c"
    by (simp add: strip_def dropWhile_eq_Nil_conv)
  have "dropWhile isspace s = []"
  proof (rule ccontr)
    assume ne: "dropWhile isspace s \<noteq> []"
    then have "\<not> isspace (hd (dropWhile isspace s))"
      by (rule hd_dropWhile)
    moreover from ne have "hd (dropWhile isspace s) \<in> set (dropWhile isspace s)"
      by simp
    ultimately show False using a by blast
  qed
  then show "\<forall>c \<in> set s. isspace c"
    by (simp add: dropWhile_eq_Nil_conv)
next
  assume "\<forall>c \<in> set s. isspace c"
  then have d: "dropWhile isspace s = []"
    by (simp add: dropWhile_eq_Nil_conv)
  show "strip s = []"
    unfolding strip_def d by simp
qed

lemma strip_tab: "(strip (out @ [CHR 0x09] @ err) = []) = (strip (out @ err) = [])"
  by (auto simp: strip_Nil_iff isspace_def)







lemma run_executable_after:
  "snd (run e executable rules) =
     (case rule_phase e rules of
        Inl err \<Rightarrow> executable
      | Inr r \<Rightarrow> (case executable of
                    Some (c # cs) \<Rightarrow> Some ((c # cs) @ [tf_name e])
                  | _ \<Rightarrow> executable))"
  by (simp add: run_def Let_def split: sum.splits option.splits list.splits prod.splits)


lemmas run_simps =
  run_def rule_phase_def remove_noqa_def merge_rules_def run_rules_def
  check_lines_per_cell_def check_cells_per_notebook_def check_function_definitions_def
  check_class_definitions_def check_kernelspec_def check_magics_def
  bindE_def getitem_def as_int_def as_ints_def as_dict_def as_set_def get_opt_set_def
  accumulate_def lint_lines_per_cell_def lint_cells_per_notebook_def
  lint_function_definitions_def lint_class_definitions_def lint_kernelspec_def
  lint_magics_def magics_result_def items_def strip_def isspace_def Let_def

lemma demo_rule_phase:
  "rule_phase (demo_env tf out rc) None = Inr ([], True)"
  by (simp add: demo_env_def demo_metadata_def run_simps)


lemma demo_run_failing_linter: "run (demo_env ''/tmp/a.py'' ''a.py:1:1: F401 unused'' 0) (Some [''flake8'']) None =
  (Inr ([\<lparr>cell = - 1, message = [Lit (''Checking lint:'' @ [CHR 0x0A] @ ''a.py:1:1: F401 unused'')],
          lint_type = LINTER, passed = False\<rparr>], True), Some [''flake8'', ''/tmp/a.py''])"
  by (simp add: demo_env_def demo_metadata_def run_simps)

lemma echo_run_first: "run (echo_env ''/tmp/a.py'') (Some [''flake8'']) None =
  (Inr ([\<lparr>cell = - 1, message = [Lit (''Checking lint:'' @ [CHR 0x0A] @ ''<flake8></tmp/a.py>'')],
          lint_type = LINTER, passed = False\<rparr>], True), Some [''flake8'', ''/tmp/a.py''])"
  by (simp add: echo_env_def demo_metadata_def run_simps)

lemma echo_run_second: "run (echo_env ''/tmp/b.py'') (snd (run (echo_env ''/tmp/a.py'') (Some [''flake8'']) None)) None =
  (Inr ([\<lparr>cell = - 1, message = [Lit (''Checking lint:'' @ [CHR 0x0A] @ ''<flake8></tmp/a.py></tmp/b.py>'')],
          lint_type = LINTER, passed = False\<rparr>], True), Some [''flake8'', ''/tmp/a.py'', ''/tmp/b.py''])"
  by (simp add: echo_env_def demo_metadata_def run_simps)


lemma demo_run_silent_linter:
  "run (demo_env ''/tmp/a.py'' [CHR 0x0A] 1) (Some [''flake8'']) None =
     (Inr ([\<lparr>cell = - 1, message = [Lit (''Checking lint:'' @ [CHR 0x0A])],
             lint_type = LINTER, passed = True\<rparr>], True), Some [''flake8'', ''/tmp/a.py''])"
  by (simp add: demo_env_def demo_metadata_def run_simps)

lemma demo_run_failing_rule:
  "run (demo_env ''/tmp/a.py'' [CHR 0x0A] 1) (Some [''flake8'']) (Some demo_rules) =
     (Inr ([\<lparr>cell = - 1,
             message = [Lit ''Checking cells per notebook (max='', Arg (PInt 1),
                        Lit ''; actual='', Arg (PInt 2), Lit '')''],
             lint_type = CELLS_PER_NOTEBOOK, passed = False\<rparr>,
            \<lparr>cell = - 1,
             message = [Lit ''Checking kernelspec (min. required='',
                        Arg (PDict [''name'' \<mapsto> ''python3'']),
                        Lit ''; actual='', Arg (PDict [''name'' \<mapsto> ''python3'']), Lit '')''],
             lint_type = KERNELSPEC, passed = True\<rparr>,
            \<lparr>cell = - 1, message = [Lit ''Checking magics''], lint_type = MAGICS, passed = True\<rparr>,
            \<lparr>cell = - 1, message = [Lit (''Checking lint:'' @ [CHR 0x0A])],
             lint_type = LINTER, passed = True\<rparr>], False),
      Some [''flake8'', ''/tmp/a.py''])"
  by (simp add: demo_env_def demo_metadata_def demo_rules_def run_simps)


text \<open>
  C9. When the rule blocks have returned their messages \<open>ret\<close> and flag \<open>p\<close>, and
  the external command has completed with the result \<open>ret2\<close>, \<^verbatim>\<open>run\<close> returns
  \<open>ret\<close> followed by exactly one message of type LINTER with cell index -1, whose
  text is the stripped output and whose flag holds exactly when the stripped output
  (standard output, a tab, standard error) is empty, which is the case exactly when
  standard output followed by standard error strips to the empty text. An external
  command that differs in its exit status only leads to the same result.
\<close>

theorem run_linter_message:
  assumes "rule_phase e rules = Inr (ret, p)"
    and "subprocess e (body e) ((c # cs) @ [tf_name e]) = Inr ret2"
  shows "fst (run e (Some (c # cs)) rules) =
           Inr (ret @ [\<lparr>cell = - 1,
                        message = [Lit (''Checking lint:'' @ [CHR 0x0A] @
                                        strip (stdout ret2 @ [CHR 0x09] @ stderr ret2))],
                        lint_type = LINTER,
                        passed = (strip (stdout ret2 @ [CHR 0x09] @ stderr ret2) = [])\<rparr>], p) \<and>
         fst (run (with_returncode rc e) (Some (c # cs)) rules) = fst (run e (Some (c # cs)) rules) \<and>
         (strip (stdout ret2 @ [CHR 0x09] @ stderr ret2) = []) =
           (strip (stdout ret2 @ stderr ret2) = [])"
proof -
  have 1: "fst (run e (Some (c # cs)) rules) =
           Inr (ret @ [\<lparr>cell = - 1,
                        message = [Lit (''Checking lint:'' @ [CHR 0x0A] @
                                        strip (stdout ret2 @ [CHR 0x09] @ stderr ret2))],
                        lint_type = LINTER,
                        passed = (strip (stdout ret2 @ [CHR 0x09] @ stderr ret2) = [])\<rparr>], p)"
    using assms by (simp add: run_def Let_def)
  have 2: "rule_phase (with_returncode rc e) rules = Inr (ret, p)"
    using assms(1) by (simp add: rule_phase_with_returncode)
  have 3: "subprocess (with_returncode rc e) (body (with_returncode rc e))
             ((c # cs) @ [tf_name (with_returncode rc e)]) = Inr (ret2\<lparr>returncode := rc\<rparr>)"
    using assms(2) by (simp add: with_returncode_def)
  have 4: "fst (run (with_returncode rc e) (Some (c # cs)) rules) =
           Inr (ret @ [\<lparr>cell = - 1,
                        message = [Lit (''Checking lint:'' @ [CHR 0x0A] @
                                        strip (stdout ret2 @ [CHR 0x09] @ stderr ret2))],
                        lint_type = LINTER,
                        passed = (strip (stdout ret2 @ [CHR 0x09] @ stderr ret2) = [])\<rparr>], p)"
    using 2 3 by (simp add: run_def Let_def)
  have 5: "fst (run (with_returncode rc e) (Some (c # cs)) rules) = fst (run e (Some (c # cs)) rules)"
    unfolding 1 4 ..
  show ?thesis
    by (intro conjI 1 5 strip_tab)
qed

theorem run_linter_message_witness:
  "rule_phase (demo_env ''/tmp/a.py'' ''a.py:1:1: F401 unused'' 0) None = Inr ([], True) \<and>
   subprocess (demo_env ''/tmp/a.py'' ''a.py:1:1: F401 unused'' 0)
       (body (demo_env ''/tmp/a.py'' ''a.py:1:1: F401 unused'' 0))
       ([''flake8''] @ [tf_name (demo_env ''/tmp/a.py'' ''a.py:1:1: F401 unused'' 0)]) =
     Inr \<lparr>stdout = ''a.py:1:1: F401 unused'', stderr = [], returncode = 0\<rparr> \<and>
   fst (run (demo_env ''/tmp/a.py'' ''a.py:1:1: F401 unused'' 0) (Some [''flake8'']) None) =
     Inr ([\<lparr>cell = - 1,
            message = [Lit (''Checking lint:'' @ [CHR 0x0A] @ ''a.py:1:1: F401 unused'')],
            lint_type = LINTER, passed = False\<rparr>], True) \<and>
   fst (run (with_returncode 1 (demo_env ''/tmp/a.py'' ''a.py:1:1: F401 unused'' 0))
          (Some [''flake8'']) None) =
     fst (run (demo_env ''/tmp/a.py'' ''a.py:1:1: F401 unused'' 0) (Some [''flake8'']) None) \<and>
   fst (run (demo_env ''/tmp/a.py'' [CHR 0x0A] 1) (Some [''flake8'']) None) =
     Inr ([\<lparr>cell = - 1, message = [Lit (''Checking lint:'' @ [CHR 0x0A])],
            lint_type = LINTER, passed = True\<rparr>], True)"
proof -
  let ?e = "demo_env ''/tmp/a.py'' ''a.py:1:1: F401 unused'' 0"
  have a: "rule_phase ?e None = Inr ([], True)"
    by (rule demo_rule_phase)
  have b: "subprocess ?e (body ?e) ([''flake8''] @ [tf_name ?e]) =
      Inr \<lparr>stdout = ''a.py:1:1: F401 unused'', stderr = [], returncode = 0\<rparr>"
    by (simp add: demo_env_def)
  note th = run_linter_message [OF a b, of 1]
  have c: "fst (run ?e (Some [''flake8'']) None) =
      Inr ([\<lparr>cell = - 1,
             message = [Lit (''Checking lint:'' @ [CHR 0x0A] @ ''a.py:1:1: F401 unused'')],
             lint_type = LINTER, passed = False\<rparr>], True)"
    by (simp add: demo_run_failing_linter)
  have d: "fst (run (demo_env ''/tmp/a.py'' [CHR 0x0A] 1) (Some [''flake8'']) None) =
      Inr ([\<lparr>cell = - 1, message = [Lit (''Checking lint:'' @ [CHR 0x0A])],
             lint_type = LINTER, passed = True\<rparr>], True)"
    by (simp add: demo_run_silent_linter)
  show ?thesis
    by (intro conjI a b c d th [THEN conjunct2, THEN conjunct1])
qed

text \<open>
  C10. Whenever \<^verbatim>\<open>run\<close> returns, its overall flag is the conjunction of the flags
  of the six rule checks (lines per cell, cells per notebook, functions, classes,
  kernelspec, magics) on the dictionary left after the noqa keys are deleted, a rule
  that is not applied counting as True; the returned messages that are not of type
  LINTER are the messages of these six checks in that order, and the overall flag is
  the conjunction of their flags. The flag of the LINTER message is not part of it:
  \<^verbatim>\<open>run\<close> returns the overall flag True together with a failing LINTER message when
  no rule fails and the external command prints something, and the overall flag False
  together with a passing LINTER message when a rule fails and the command is silent.
\<close>

theorem run_overall_flag:
  assumes "run e executable rules = (Inr (msgs, p), executable')"
  shows "rule_phase e rules = Inr (filter (\<lambda>m. lint_type m \<noteq> LINTER) msgs, p) \<and>
         p = list_all passed (filter (\<lambda>m. lint_type m \<noteq> LINTER) msgs) \<and>
         (\<exists>md. remove_noqa (merge_rules (extracted e) rules) = Inr md \<and>
            p = (snd (rule_lines_per_cell md) \<and> snd (rule_cells_per_notebook md) \<and>
                 snd (rule_function_definitions md) \<and> snd (rule_class_definitions md) \<and>
                 snd (rule_kernelspec md) \<and> snd (rule_magics md)) \<and>
            filter (\<lambda>m. lint_type m \<noteq> LINTER) msgs =
              fst (rule_lines_per_cell md) @ fst (rule_cells_per_notebook md) @
              fst (rule_function_definitions md) @ fst (rule_class_definitions md) @
              fst (rule_kernelspec md) @ fst (rule_magics md))"
proof -
  from run_cases [OF assms] obtain ret where
    rp: "rule_phase e rules = Inr (ret, p)" and
    ms: "msgs = ret \<or> (\<exists>l. msgs = ret @ [l] \<and> lint_type l = LINTER)"
    by blast
  from rp obtain md where
    rem: "remove_noqa (merge_rules (extracted e) rules) = Inr md" and
    rr: "run_rules md = Inr (ret, p)"
    unfolding rule_phase_def by (blast dest!: bindE_Inr)
  from run_rules_inv [OF rr]
  have nl: "\<forall>m \<in> set ret. lint_type m \<noteq> LINTER" and pa: "p = list_all passed ret"
    by (simp_all add: rules_inv_def)
  from nl have "filter (\<lambda>m. lint_type m \<noteq> LINTER) ret = ret"
    by (simp add: filter_id_conv)
  with ms have f: "filter (\<lambda>m. lint_type m \<noteq> LINTER) msgs = ret"
    by auto
  from run_rules_eq [OF rr]
  have r1: "ret = fst (rule_lines_per_cell md) @ fst (rule_cells_per_notebook md) @
             fst (rule_function_definitions md) @ fst (rule_class_definitions md) @
             fst (rule_kernelspec md) @ fst (rule_magics md)"
    and r2: "p = (snd (rule_lines_per_cell md) \<and> snd (rule_cells_per_notebook md) \<and>
                snd (rule_function_definitions md) \<and> snd (rule_class_definitions md) \<and>
                snd (rule_kernelspec md) \<and> snd (rule_magics md))"
    by simp_all
  from rp f have r3: "rule_phase e rules = Inr (filter (\<lambda>m. lint_type m \<noteq> LINTER) msgs, p)"
    by simp
  from pa f have r4: "p = list_all passed (filter (\<lambda>m. lint_type m \<noteq> LINTER) msgs)"
    by simp
  from r1 f have r5: "filter (\<lambda>m. lint_type m \<noteq> LINTER) msgs =
             fst (rule_lines_per_cell md) @ fst (rule_cells_per_notebook md) @
             fst (rule_function_definitions md) @ fst (rule_class_definitions md) @
             fst (rule_kernelspec md) @ fst (rule_magics md)"
    by simp
  show ?thesis
    by (intro conjI r3 r4 exI [of _ md] rem r2 r5)
qed

theorem run_overall_flag_witness:
  "run (demo_env ''/tmp/a.py'' [CHR 0x0A] 1) (Some [''flake8'']) (Some demo_rules) =
     (Inr ([\<lparr>cell = - 1,
             message = [Lit ''Checking cells per notebook (max='', Arg (PInt 1),
                        Lit ''; actual='', Arg (PInt 2), Lit '')''],
             lint_type = CELLS_PER_NOTEBOOK, passed = False\<rparr>,
            \<lparr>cell = - 1,
             message = [Lit ''Checking kernelspec (min. required='',
                        Arg (PDict [''name'' \<mapsto> ''python3'']),
                        Lit ''; actual='', Arg (PDict [''name'' \<mapsto> ''python3'']), Lit '')''],
             lint_type = KERNELSPEC, passed = True\<rparr>,
            \<lparr>cell = - 1, message = [Lit ''Checking magics''], lint_type = MAGICS, passed = True\<rparr>,
            \<lparr>cell = - 1, message = [Lit (''Checking lint:'' @ [CHR 0x0A])],
             lint_type = LINTER, passed = True\<rparr>], False),
      Some [''flake8'', ''/tmp/a.py'']) \<and>
   rule_phase (demo_env ''/tmp/a.py'' [CHR 0x0A] 1) (Some demo_rules) =
     Inr ([\<lparr>cell = - 1,
            message = [Lit ''Checking cells per notebook (max='', Arg (PInt 1),
                       Lit ''; actual='', Arg (PInt 2), Lit '')''],
            lint_type = CELLS_PER_NOTEBOOK, passed = False\<rparr>,
           \<lparr>cell = - 1,
            message = [Lit ''Checking kernelspec (min. required='',
                       Arg (PDict [''name'' \<mapsto> ''python3'']),
                       Lit ''; actual='', Arg (PDict [''name'' \<mapsto> ''python3'']), Lit '')''],
            lint_type = KERNELSPEC, passed = True\<rparr>,
           \<lparr>cell = - 1, message = [Lit ''Checking magics''], lint_type = MAGICS, passed = True\<rparr>],
          False) \<and>
   (\<exists>md. remove_noqa (merge_rules (extracted (demo_env ''/tmp/a.py'' [CHR 0x0A] 1))
                         (Some demo_rules)) = Inr md \<and>
      \<not> (snd (rule_lines_per_cell md) \<and> snd (rule_cells_per_notebook md) \<and>
         snd (rule_function_definitions md) \<and> snd (rule_class_definitions md) \<and>
         snd (rule_kernelspec md) \<and> snd (rule_magics md))) \<and>
   run (demo_env ''/tmp/a.py'' ''a.py:1:1: F401 unused'' 0) (Some [''flake8'']) None =
     (Inr ([\<lparr>cell = - 1,
             message = [Lit (''Checking lint:'' @ [CHR 0x0A] @ ''a.py:1:1: F401 unused'')],
             lint_type = LINTER, passed = False\<rparr>], True), Some [''flake8'', ''/tmp/a.py'']) \<and>
   rule_phase (demo_env ''/tmp/a.py'' ''a.py:1:1: F401 unused'' 0) None = Inr ([], True)"
proof -
  note a = demo_run_failing_rule
  note b = demo_run_failing_linter
  note ta = run_overall_flag [OF a]
  note tb = run_overall_flag [OF b]
  from ta [THEN conjunct1]
  have ra: "rule_phase (demo_env ''/tmp/a.py'' [CHR 0x0A] 1) (Some demo_rules) =
     Inr ([\<lparr>cell = - 1,
            message = [Lit ''Checking cells per notebook (max='', Arg (PInt 1),
                       Lit ''; actual='', Arg (PInt 2), Lit '')''],
            lint_type = CELLS_PER_NOTEBOOK, passed = False\<rparr>,
           \<lparr>cell = - 1,
            message = [Lit ''Checking kernelspec (min. required='',
                       Arg (PDict [''name'' \<mapsto> ''python3'']),
                       Lit ''; actual='', Arg (PDict [''name'' \<mapsto> ''python3'']), Lit '')''],
            lint_type = KERNELSPEC, passed = True\<rparr>,
           \<lparr>cell = - 1, message = [Lit ''Checking magics''], lint_type = MAGICS, passed = True\<rparr>],
          False)"
    by simp
  from ta [THEN conjunct2, THEN conjunct2] obtain md where
    rem: "remove_noqa (merge_rules (extracted (demo_env ''/tmp/a.py'' [CHR 0x0A] 1))
                         (Some demo_rules)) = Inr md" and
    fl: "False = (snd (rule_lines_per_cell md) \<and> snd (rule_cells_per_notebook md) \<and>
         snd (rule_function_definitions md) \<and> snd (rule_class_definitions md) \<and>
         snd (rule_kernelspec md) \<and> snd (rule_magics md))"
    by (elim exE conjE)
  from fl have nf: "\<not> (snd (rule_lines_per_cell md) \<and> snd (rule_cells_per_notebook md) \<and>
         snd (rule_function_definitions md) \<and> snd (rule_class_definitions md) \<and>
         snd (rule_kernelspec md) \<and> snd (rule_magics md))"
    by simp
  have ex: "\<exists>md. remove_noqa (merge_rules (extracted (demo_env ''/tmp/a.py'' [CHR 0x0A] 1))
                         (Some demo_rules)) = Inr md \<and>
      \<not> (snd (rule_lines_per_cell md) \<and> snd (rule_cells_per_notebook md) \<and>
         snd (rule_function_definitions md) \<and> snd (rule_class_definitions md) \<and>
         snd (rule_kernelspec md) \<and> snd (rule_magics md))"
    by (intro exI [of _ md] conjI rem nf)
  from tb [THEN conjunct1]
  have rb: "rule_phase (demo_env ''/tmp/a.py'' ''a.py:1:1: F401 unused'' 0) None = Inr ([], True)"
    by simp
  show ?thesis
    by (intro conjI a ra ex b rb)
qed




text \<open>
  C2. \<^verbatim>\<open>run\<close> appends the name of the temporary file to the list the caller
  passed as \<^verbatim>\<open>executable\<close>, and the list keeps it: after a first call with
  \<^verbatim>\<open>['flake8']\<close> the caller's list is \<^verbatim>\<open>['flake8', '/tmp/a.py']\<close>, and a second
  call with the same list runs the command with both file names, of which the first
  names a file that is removed already.
\<close>

theorem run_keeps_temp_path_in_callers_list:
  "run (echo_env ''/tmp/a.py'') (Some [''flake8'']) None =
     (Inr ([\<lparr>cell = - 1,
             message = [Lit (''Checking lint:'' @ [CHR 0x0A] @ ''<flake8></tmp/a.py>'')],
             lint_type = LINTER, passed = False\<rparr>], True),
      Some [''flake8'', ''/tmp/a.py'']) \<and>
   run (echo_env ''/tmp/b.py'') (snd (run (echo_env ''/tmp/a.py'') (Some [''flake8'']) None)) None =
     (Inr ([\<lparr>cell = - 1,
             message = [Lit (''Checking lint:'' @ [CHR 0x0A] @ ''<flake8></tmp/a.py></tmp/b.py>'')],
             lint_type = LINTER, passed = False\<rparr>], True),
      Some [''flake8'', ''/tmp/a.py'', ''/tmp/b.py''])"
  by (intro conjI echo_run_first echo_run_second)

end
